theory Spec2Isabelle
  imports Complex_Main
begin

section \<open>The watermark application: data model\<close>

text \<open>
  The source is one class, \<open>WatermarkApp\<close> (\<open>src/watermark_app.py\<close>). Its attributes
  become the record \<open>session\<close>; every method becomes a function that takes the session
  and returns the updated one together with what the call did (\<open>Returned\<close>, or
  \<open>Raised\<close> with the exception that leaves the method).

  PIL images are mutable objects that the attributes point to, and the source relies on
  \<open>copy()\<close> to keep the loaded image apart from the image that is drawn on. The model
  therefore keeps an explicit store: \<open>heap\<close> is the list of all image objects created so
  far, an address is an index into it, \<open>copy()\<close> appends a new object, and drawing
  overwrites the object at an address.

  Of the window the session keeps what the methods read or decide on: the widgets of
  the text dialog, the click marker, whether the buttons are enabled, and the message
  boxes shown (\<open>notices\<close>). The preview is put on the canvas with its centre at the
  canvas point (300, 200).
\<close>

type_synonym addr = nat

record image =
  width :: int
  height :: int
  pixels :: "int list"

datatype font = TrueType "string option" int | DefaultFont

datatype error = AttributeError | TclError | ZeroDivisionError | ValueError | IOError

datatype 'a outcome = Raised error | Returned 'a

datatype notice =
    ShowInfo string
  | ShowWarning string
  | ShowError string
  | Printed string

text \<open>The widgets of the text editor dialog that \<open>apply_text_watermark\<close> reads.\<close>

record editor =
  watermark_text :: string
  font_size :: string
  font_family :: string
  alive :: bool

record session =
  heap :: "image list"
  original_image :: "addr option"
  preview_image :: "image option"
  watermarked_image :: "addr option"
  scale_x :: rat
  scale_y :: rat
  last_click_x :: int
  last_click_y :: int
  default_margin_x :: int
  default_margin_y :: int
  text_color :: string
  text_editor :: "editor option"
  click_marker :: "(int \<times> int) option"
  buttons_enabled :: bool
  notices :: "notice list"
  written :: "(string \<times> image) list"

text \<open>
  What the source takes from PIL, Tk, matplotlib and the Python runtime is a parameter
  of the model, so that every theorem holds for whatever these libraries compute.
  A Python float is a rational number (every finite double is one); the rounding of the
  float operations is left to \<open>fmul\<close> and \<open>fdiv\<close>.
  \<^item> \<open>thumbnail\<close>: \<open>Image.thumbnail(max_size, LANCZOS)\<close>, the image it leaves in place;
  \<^item> \<open>resize_px\<close>: the pixel data \<open>Image.resize\<close> computes for a requested size;
  \<^item> \<open>draw_px\<close>: the pixel data after \<open>ImageDraw.text(position, text, fill, font)\<close>;
  \<^item> \<open>paste_px\<close>: the pixel data after \<open>Image.paste(logo, position, logo)\<close>, \<open>None\<close>
    when PIL rejects the logo as a transparency mask;
  \<^item> \<open>getbbox\<close>: \<open>font.getbbox(text)\<close>;
  \<^item> \<open>truetype_ok\<close>: whether \<open>ImageFont.truetype(path, size)\<close> returns;
  \<^item> \<open>findSystemFonts\<close>: matplotlib's list of font files;
  \<^item> \<open>parse_int\<close>: Python's \<open>int(str)\<close>, \<open>None\<close> for \<open>ValueError\<close>;
  \<^item> \<open>winfo_width\<close>, \<open>winfo_height\<close>: the size Tk reports for the canvas.
\<close>

record lib =
  thumbnail :: "int \<times> int \<Rightarrow> image \<Rightarrow> image"
  resize_px :: "image \<Rightarrow> int \<times> int \<Rightarrow> int list"
  draw_px :: "image \<Rightarrow> int \<times> int \<Rightarrow> string \<Rightarrow> string \<Rightarrow> font \<Rightarrow> int list"
  paste_px :: "image \<Rightarrow> image \<Rightarrow> int \<times> int \<Rightarrow> int list option"
  getbbox :: "font \<Rightarrow> string \<Rightarrow> int \<times> int \<times> int \<times> int"
  truetype_ok :: "string option \<Rightarrow> int \<Rightarrow> bool"
  findSystemFonts :: "string list"
  parse_int :: "string \<Rightarrow> int option"
  winfo_width :: int
  winfo_height :: int
  fmul :: "rat \<Rightarrow> rat \<Rightarrow> rat"
  fdiv :: "rat \<Rightarrow> rat \<Rightarrow> rat"

section \<open>Python primitives\<close>

text \<open>\<open>int(x)\<close> of a float truncates towards zero.\<close>

definition py_int :: "rat \<Rightarrow> int" where
  "py_int q = (if 0 \<le> q then \<lfloor>q\<rfloor> else \<lceil>q\<rceil>)"

text \<open>The double nearest to the literal \<open>0.1\<close>, which is \<open>0x1.999999999999ap-4\<close>.\<close>

definition float_0_1 :: rat where
  "float_0_1 = 3602879701896397 / 36028797018963968"

text \<open>
  \<open>str.strip()\<close> removes the white space at both ends. Characters are code points
  below 256; these are the ones Python counts as white space there.
\<close>

definition is_space :: "char \<Rightarrow> bool" where
  "is_space c = ((of_char c :: nat) \<in> {9, 10, 11, 12, 13, 28, 29, 30, 31, 32, 133, 160})"

definition strip :: "string \<Rightarrow> string" where
  "strip t = rev (dropWhile is_space (rev (dropWhile is_space t)))"

text \<open>
  \<open>str.lower()\<close> on code points below 256: the letters A to Z and the Latin-1
  capitals 192 to 222, without the multiplication sign 215, move up by 32.
  \<open>os.path.basename\<close> is the one for \<open>/\<close>-separated paths.
\<close>

definition lower_char :: "char \<Rightarrow> char" where
  "lower_char c =
     (if (65 \<le> (of_char c :: nat) \<and> (of_char c :: nat) \<le> 90) \<or>
         (192 \<le> (of_char c :: nat) \<and> (of_char c :: nat) \<le> 222 \<and> (of_char c :: nat) \<noteq> 215)
      then char_of ((of_char c :: nat) + 32) else c)"

definition lower :: "string \<Rightarrow> string" where
  "lower t = map lower_char t"

definition basename :: "string \<Rightarrow> string" where
  "basename p = rev (takeWhile (\<lambda>c. c \<noteq> CHR ''/'') (rev p))"

text \<open>The substring test \<open>a in b\<close>.\<close>

fun starts_with :: "string \<Rightarrow> string \<Rightarrow> bool" where
  "starts_with [] t = True"
| "starts_with (c # cs) [] = False"
| "starts_with (c # cs) (d # ds) = (c = d \<and> starts_with cs ds)"

fun py_in :: "string \<Rightarrow> string \<Rightarrow> bool" where
  "py_in a [] = (a = [])"
| "py_in a (d # ds) = (starts_with a (d # ds) \<or> py_in a ds)"

section \<open>Initialisation and event handlers\<close>

definition init :: session where
  "init = \<lparr>heap = [], original_image = None, preview_image = None,
     watermarked_image = None, scale_x = 1, scale_y = 1,
     last_click_x = 0, last_click_y = 0,
     default_margin_x = 30, default_margin_y = 30,
     text_color = ''#000000'', text_editor = None, click_marker = None,
     buttons_enabled = False, notices = [], written = []\<rparr>"

definition on_canvas_click :: "int \<times> int \<Rightarrow> session \<Rightarrow> session" where
  "on_canvas_click ev s =
     s\<lparr>last_click_x := fst ev, last_click_y := snd ev, click_marker := Some ev\<rparr>"

text \<open>
  \<open>open_text_editor\<close> builds the dialog: an empty entry, a spinbox that starts at its
  lower bound 10, and the family set to Arial. What the user then types arrives through
  \<open>edit_text\<close>, which stands for the Tk widgets changing under the user's hands.
\<close>

definition open_text_editor :: "session \<Rightarrow> session" where
  "open_text_editor s =
     s\<lparr>text_editor := Some \<lparr>watermark_text = [], font_size = ''10'',
        font_family = ''Arial'', alive = True\<rparr>\<rparr>"

definition edit_text :: "string \<Rightarrow> string \<Rightarrow> string \<Rightarrow> session \<Rightarrow> session" where
  "edit_text t sz fam s =
     (case text_editor s of
        None \<Rightarrow> s
      | Some ed \<Rightarrow>
          if alive ed
          then s\<lparr>text_editor :=
                 Some (ed\<lparr>watermark_text := t, font_size := sz, font_family := fam\<rparr>)\<rparr>
          else s)"

section \<open>Utility functions\<close>

definition get_font_path :: "lib \<Rightarrow> string \<Rightarrow> string option" where
  "get_font_path l font_name =
     find (\<lambda>font_path. py_in (lower font_name) (lower (basename font_path)))
       (findSystemFonts l)"

text \<open>
  \<open>get_resized_image_for_preview\<close>: copy the image, shrink the copy in place, store the
  two scale factors, return the picture for the canvas. A division by a zero width or
  height raises after the copy was made (and, for the height, after \<open>scale_x\<close> was
  stored).
\<close>

definition get_resized_image_for_preview ::
  "lib \<Rightarrow> addr \<Rightarrow> session \<Rightarrow> image outcome \<times> session" where
  "get_resized_image_for_preview l a s =
     (let img = heap s ! a;
          max_size = (winfo_width l, winfo_height l);
          img_copy = thumbnail l max_size img;
          s1 = s\<lparr>heap := heap s @ [img_copy]\<rparr>
      in if width img_copy = 0 then (Raised ZeroDivisionError, s1)
         else
           let s2 = s1\<lparr>scale_x := fdiv l (of_int (width img)) (of_int (width img_copy))\<rparr>
           in if height img_copy = 0 then (Raised ZeroDivisionError, s2)
              else
                (Returned img_copy,
                 s2\<lparr>scale_y := fdiv l (of_int (height img)) (of_int (height img_copy))\<rparr>))"

definition update_preview :: "lib \<Rightarrow> session \<Rightarrow> unit outcome \<times> session" where
  "update_preview l s =
     (case watermarked_image s of
        None \<Rightarrow> (Returned (), s)
      | Some w \<Rightarrow>
          (case get_resized_image_for_preview l w s of
             (Raised e, s1) \<Rightarrow> (Raised e, s1)
           | (Returned p, s1) \<Rightarrow> (Returned (), s1\<lparr>preview_image := Some p\<rparr>)))"

definition enable_buttons :: "session \<Rightarrow> session" where
  "enable_buttons s = s\<lparr>buttons_enabled := True\<rparr>"

section \<open>User actions: image upload and watermarking\<close>

text \<open>
  \<open>upload_image\<close>: \<open>file_path\<close> is what the file dialog returned (empty when it was
  cancelled) and \<open>opened\<close> what \<open>Image.open\<close> did with it (\<open>None\<close> when it raised).
  The \<open>try\<close> block catches every exception, after \<open>original_image\<close> was assigned.
  Neither the last click nor \<open>watermarked_image\<close> is touched.
\<close>

definition upload_image :: "lib \<Rightarrow> string \<Rightarrow> image option \<Rightarrow> session \<Rightarrow> session" where
  "upload_image l file_path opened s =
     (if file_path \<noteq> [] then
        (case opened of
           None \<Rightarrow> s\<lparr>notices := notices s @ [ShowError ''Image Upload Error'']\<rparr>
         | Some img \<Rightarrow>
             let s1 = s\<lparr>heap := heap s @ [img], original_image := Some (length (heap s))\<rparr>
             in (case get_resized_image_for_preview l (length (heap s)) s1 of
                   (Raised e, s2) \<Rightarrow>
                     s2\<lparr>notices := notices s2 @ [ShowError ''Image Upload Error'']\<rparr>
                 | (Returned p, s2) \<Rightarrow>
                     let s3 = enable_buttons (s2\<lparr>preview_image := Some p\<rparr>)
                     in s3\<lparr>notices := notices s3 @ [ShowInfo ''Image Uploaded'']\<rparr>))
      else s\<lparr>notices := notices s @ [ShowInfo ''No Image Selected'']\<rparr>)"

text \<open>
  The conversion of the last click to the original image, written twice in the source
  (lines 262-268 and 316-323): subtract 125 from x, leave y, scale, truncate.
\<close>

definition original_xy :: "lib \<Rightarrow> session \<Rightarrow> int \<times> int" where
  "original_xy l s =
     (let adjusted_click_x = last_click_x s - 125;
          adjusted_click_y = last_click_y s
      in (py_int (fmul l (of_int adjusted_click_x) (scale_x s)),
          py_int (fmul l (of_int adjusted_click_y) (scale_y s))))"

text \<open>Lines 260-279: where the text goes.\<close>

definition text_position :: "lib \<Rightarrow> session \<Rightarrow> int \<times> int \<Rightarrow> image \<Rightarrow> int \<times> int" where
  "text_position l s text_size watermark_image =
     (if last_click_x s > 0 \<and> last_click_y s > 0
      then (max (fst (original_xy l s) - fst text_size) 0,
            max (snd (original_xy l s) - snd text_size) 0)
      else (width watermark_image - fst text_size - default_margin_x s,
            height watermark_image - snd text_size - default_margin_y s))"

text \<open>Lines 314-336: where the (already resized) logo goes.\<close>

definition logo_position :: "lib \<Rightarrow> session \<Rightarrow> image \<Rightarrow> image \<Rightarrow> int \<times> int" where
  "logo_position l s logo_image watermark_image =
     (if last_click_x s > 0 \<and> last_click_y s > 0
      then (fst (original_xy l s) - width logo_image div 2,
            snd (original_xy l s) - height logo_image div 2)
      else (width watermark_image - width logo_image - default_margin_x s,
            height watermark_image - height logo_image - default_margin_y s))"

text \<open>Lines 249-253: the font, with the built-in one when loading fails.\<close>

definition load_font :: "lib \<Rightarrow> string option \<Rightarrow> int \<Rightarrow> session \<Rightarrow> font \<times> session" where
  "load_font l font_path fsize s =
     (if truetype_ok l font_path fsize then (TrueType font_path fsize, s)
      else (DefaultFont, s\<lparr>notices := notices s @ [Printed ''Failed to load font'']\<rparr>))"

text \<open>Lines 255-258: width and height from the font's bounding box.\<close>

definition text_size :: "lib \<Rightarrow> font \<Rightarrow> string \<Rightarrow> int \<times> int" where
  "text_size l fnt t =
     (case getbbox l fnt t of (x0, y0, x1, y1) \<Rightarrow> (x1 - x0, y1 - y0))"

text \<open>
  Lines 246-288 of \<open>apply_text_watermark\<close>: copy the loaded image, load the font,
  measure the text, choose the position, draw, delete the click marker, and make the
  copy the watermarked image. The copy is the new object at address
  \<open>length (heap s)\<close>; only that object is drawn on.
\<close>

definition draw_text_watermark ::
  "lib \<Rightarrow> addr \<Rightarrow> string \<Rightarrow> string option \<Rightarrow> int \<Rightarrow> session \<Rightarrow> session" where
  "draw_text_watermark l a text font_path fsize s =
     (let w = length (heap s);
          watermark_image = heap s ! a;
          s1 = s\<lparr>heap := heap s @ [watermark_image]\<rparr>;
          fnt = fst (load_font l font_path fsize s1);
          s2 = snd (load_font l font_path fsize s1);
          position = text_position l s2 (text_size l fnt text) watermark_image;
          drawn = watermark_image
            \<lparr>pixels := draw_px l watermark_image position text (text_color s2) fnt\<rparr>;
          s3 = s2\<lparr>heap := (heap s2)[w := drawn]\<rparr>;
          s4 = s3\<lparr>click_marker := None\<rparr>
      in s4\<lparr>watermarked_image := Some w\<rparr>)"

text \<open>
  \<open>apply_text_watermark\<close>. Reading the entry raises \<open>AttributeError\<close> when the dialog
  was never opened and \<open>TclError\<close> when it was destroyed. After the preview is updated
  the dialog, which exists, is destroyed. This is the method as it is declared, without
  parameters; the dialog's button passes it an argument, a call that Python rejects
  before the body runs.
\<close>

definition apply_text_watermark :: "lib \<Rightarrow> session \<Rightarrow> unit outcome \<times> session" where
  "apply_text_watermark l s =
     (case original_image s of
        None \<Rightarrow> (Returned (), s)
      | Some a \<Rightarrow>
          (case text_editor s of
             None \<Rightarrow> (Raised AttributeError, s)
           | Some ed \<Rightarrow>
               if \<not> alive ed then (Raised TclError, s)
               else
                 let text = watermark_text ed;
                     font_path = get_font_path l (font_family ed);
                     fsize = (case parse_int l (font_size ed) of Some n \<Rightarrow> n | None \<Rightarrow> 36)
                 in if strip text = [] then (Returned (), s)
                    else
                      (case update_preview l (draw_text_watermark l a text font_path fsize s) of
                         (Raised e, s6) \<Rightarrow> (Raised e, s6)
                       | (Returned u, s6) \<Rightarrow>
                           (Returned (), s6\<lparr>text_editor := Some (ed\<lparr>alive := False\<rparr>)\<rparr>))))"

text \<open>
  Lines 306-312: the logo resized to a tenth of the image's width. \<open>Image.resize\<close>
  returns a new image of the requested size and refuses a size below 1; the division
  raises for a logo of width 0.
\<close>

definition resize_logo :: "lib \<Rightarrow> image \<Rightarrow> image \<Rightarrow> image outcome" where
  "resize_logo l watermark_image logo_image =
     (let base_width = py_int (fmul l (of_int (width watermark_image)) float_0_1)
      in if width logo_image = 0 then Raised ZeroDivisionError
         else
           let wpercent = fdiv l (of_int base_width) (of_int (width logo_image));
               hsize = py_int (fmul l (of_int (height logo_image)) wpercent)
           in if base_width < 1 \<or> hsize < 1 then Raised ValueError
              else Returned \<lparr>width = base_width, height = hsize,
                     pixels = resize_px l logo_image (base_width, hsize)\<rparr>)"

text \<open>
  Lines 314-345 of \<open>apply_logo_watermark\<close>, once the logo is resized: choose the
  position, paste the logo with itself as the mask onto the copy at address \<open>w\<close>,
  delete the click marker, and make the copy the watermarked image.
\<close>

definition paste_logo_watermark ::
  "lib \<Rightarrow> addr \<Rightarrow> image \<Rightarrow> image \<Rightarrow> session \<Rightarrow> session outcome" where
  "paste_logo_watermark l w watermark_image logo_image s1 =
     (let position = logo_position l s1 logo_image watermark_image
      in (case paste_px l watermark_image logo_image position of
            None \<Rightarrow> Raised ValueError
          | Some px \<Rightarrow>
              let s2 = s1\<lparr>heap := (heap s1)[w := watermark_image\<lparr>pixels := px\<rparr>]\<rparr>;
                  s3 = s2\<lparr>click_marker := None\<rparr>
              in Returned (s3\<lparr>watermarked_image := Some w\<rparr>)))"

definition apply_logo_watermark :: "lib \<Rightarrow> image \<Rightarrow> session \<Rightarrow> unit outcome \<times> session" where
  "apply_logo_watermark l logo_image s =
     (case original_image s of
        None \<Rightarrow> (Returned (), s)
      | Some a \<Rightarrow>
          let w = length (heap s);
              watermark_image = heap s ! a;
              s1 = s\<lparr>heap := heap s @ [watermark_image]\<rparr>
          in (case resize_logo l watermark_image logo_image of
                Raised e \<Rightarrow> (Raised e, s1)
              | Returned resized \<Rightarrow>
                  (case paste_logo_watermark l w watermark_image resized s1 of
                     Raised e \<Rightarrow> (Raised e, s1)
                   | Returned s4 \<Rightarrow>
                       (case update_preview l s4 of
                          (Raised e, s5) \<Rightarrow> (Raised e, s5)
                        | (Returned u, s5) \<Rightarrow> (Returned (), s5)))))"

text \<open>
  \<open>add_logo_watermark\<close>: \<open>logo_path\<close> from the file dialog, \<open>opened\<close> what
  \<open>Image.open\<close> did with it; this method has no \<open>try\<close> block.
\<close>

definition add_logo_watermark ::
  "lib \<Rightarrow> string \<Rightarrow> image option \<Rightarrow> session \<Rightarrow> unit outcome \<times> session" where
  "add_logo_watermark l logo_path opened s =
     (if logo_path \<noteq> [] \<and> original_image s \<noteq> None then
        (case opened of
           None \<Rightarrow> (Raised IOError, s)
         | Some logo_image \<Rightarrow> apply_logo_watermark l logo_image s)
      else (Returned (), s))"

text \<open>
  \<open>save_image\<close>: \<open>save_path\<close> from the save dialog (empty when cancelled), \<open>write_ok\<close>
  whether \<open>Image.save\<close> returned. Every file written is appended to \<open>written\<close>.
\<close>

definition save_image :: "string \<Rightarrow> bool \<Rightarrow> session \<Rightarrow> session" where
  "save_image save_path write_ok s =
     (case watermarked_image s of
        Some w \<Rightarrow>
          if save_path \<noteq> [] then
            (if write_ok
             then s\<lparr>written := written s @ [(save_path, heap s ! w)],
                    notices := notices s @ [ShowInfo ''Save Successful'']\<rparr>
             else s\<lparr>notices := notices s @ [ShowError ''Save Error'']\<rparr>)
          else s\<lparr>notices := notices s @ [ShowWarning ''Save Cancelled'']\<rparr>
      | None \<Rightarrow> s\<lparr>notices := notices s @ [ShowWarning ''No Image'']\<rparr>)"

section \<open>Sessions as sequences of calls\<close>

text \<open>
  Tk runs one callback after the other; an exception that leaves a callback is reported
  and the main loop goes on with the session as that callback left it.
\<close>

datatype call =
    Upload string "image option"
  | Click int int
  | OpenEditor
  | Edit string string string
  | ApplyText
  | AddLogo string "image option"
  | ApplyLogo image
  | Save string bool

fun step :: "lib \<Rightarrow> call \<Rightarrow> session \<Rightarrow> session" where
  "step l (Upload p opened) s = upload_image l p opened s"
| "step l (Click x y) s = on_canvas_click (x, y) s"
| "step l OpenEditor s = open_text_editor s"
| "step l (Edit t sz fam) s = edit_text t sz fam s"
| "step l ApplyText s = snd (apply_text_watermark l s)"
| "step l (AddLogo p opened) s = snd (add_logo_watermark l p opened s)"
| "step l (ApplyLogo logo) s = snd (apply_logo_watermark l logo s)"
| "step l (Save p ok) s = save_image p ok s"

fun run :: "lib \<Rightarrow> call list \<Rightarrow> session \<Rightarrow> session" where
  "run l [] s = s"
| "run l (c # cs) s = run l cs (step l c s)"


text \<open>Every address a session holds points into its heap.\<close>

definition wf :: "session \<Rightarrow> bool" where
  "wf s = ((case original_image s of None \<Rightarrow> True | Some a \<Rightarrow> a < length (heap s)) \<and>
           (case watermarked_image s of None \<Rightarrow> True | Some w \<Rightarrow> w < length (heap s)))"

section \<open>A library instance for running the model\<close>

text \<open>
  An instance of the library parameters on which sessions can be evaluated: a canvas
  of 600 by 400, float operations that are exact, a thumbnail that shrinks an image
  that does not fit to the largest size of the same aspect ratio that does, text
  twenty pixels wide per character and thirty-six high, and pixel data that records
  where something was drawn.
\<close>

definition fit :: "int \<times> int \<Rightarrow> image \<Rightarrow> image" where
  "fit max_size img =
     (if width img \<le> fst max_size \<and> height img \<le> snd max_size then img
      else if snd max_size * width img \<le> fst max_size * height img
      then img\<lparr>width := max (snd max_size * width img div height img) 1,
               height := snd max_size\<rparr>
      else img\<lparr>width := fst max_size,
               height := max (fst max_size * height img div width img) 1\<rparr>)"

definition lib_exact :: lib where
  "lib_exact = \<lparr>thumbnail = fit,
     resize_px = (\<lambda>img sz. pixels img),
     draw_px = (\<lambda>img pos t col fnt. pixels img @ [fst pos, snd pos]),
     paste_px = (\<lambda>img logo pos. Some (pixels img @ [fst pos, snd pos, width logo, height logo])),
     getbbox = (\<lambda>fnt t. (0, 0, 20 * int (length t), 36)),
     truetype_ok = (\<lambda>path sz. False),
     findSystemFonts = [],
     parse_int = (\<lambda>t. if t = ''10'' then Some 10 else None),
     winfo_width = 600,
     winfo_height = 400,
     fmul = (\<lambda>a b. a * b),
     fdiv = (\<lambda>a b. a / b)\<rparr>"

definition photo :: image where
  "photo = \<lparr>width = 1000, height = 800, pixels = [7, 7, 7]\<rparr>"

definition logo_file :: image where
  "logo_file = \<lparr>width = 200, height = 160, pixels = [9]\<rparr>"

text \<open>Sessions to run: the photo loaded, and a text typed into a freshly opened dialog.\<close>

definition loaded :: session where
  "loaded = upload_image lib_exact ''photo.png'' (Some photo) init"

definition typed :: "string \<Rightarrow> session \<Rightarrow> session" where
  "typed t s = edit_text t ''36'' ''Arial'' (open_text_editor s)"

section \<open>What the operations leave unchanged\<close>

lemma preview_frame:
  "original_image (snd (get_resized_image_for_preview l a s)) = original_image s"
  "watermarked_image (snd (get_resized_image_for_preview l a s)) = watermarked_image s"
  "last_click_x (snd (get_resized_image_for_preview l a s)) = last_click_x s"
  "last_click_y (snd (get_resized_image_for_preview l a s)) = last_click_y s"
  "click_marker (snd (get_resized_image_for_preview l a s)) = click_marker s"
  "written (snd (get_resized_image_for_preview l a s)) = written s"
  "notices (snd (get_resized_image_for_preview l a s)) = notices s"
  "text_editor (snd (get_resized_image_for_preview l a s)) = text_editor s"
  "heap (snd (get_resized_image_for_preview l a s)) =
     heap s @ [thumbnail l (winfo_width l, winfo_height l) (heap s ! a)]"
  by (simp_all add: get_resized_image_for_preview_def Let_def)

lemma preview_result:
  "fst (get_resized_image_for_preview l a s) =
     (if width (thumbnail l (winfo_width l, winfo_height l) (heap s ! a)) = 0 \<or>
         height (thumbnail l (winfo_width l, winfo_height l) (heap s ! a)) = 0
      then Raised ZeroDivisionError
      else Returned (thumbnail l (winfo_width l, winfo_height l) (heap s ! a)))"
  by (simp add: get_resized_image_for_preview_def Let_def)

lemma update_preview_frame:
  "original_image (snd (update_preview l s)) = original_image s"
  "watermarked_image (snd (update_preview l s)) = watermarked_image s"
  "last_click_x (snd (update_preview l s)) = last_click_x s"
  "last_click_y (snd (update_preview l s)) = last_click_y s"
  "click_marker (snd (update_preview l s)) = click_marker s"
  "written (snd (update_preview l s)) = written s"
  "notices (snd (update_preview l s)) = notices s"
  "text_editor (snd (update_preview l s)) = text_editor s"
  "take (length (heap s)) (heap (snd (update_preview l s))) = heap s"
  by (simp_all add: update_preview_def get_resized_image_for_preview_def Let_def
      split: option.splits)

lemma load_font_frame:
  "heap (snd (load_font l p f s)) = heap s"
  "original_image (snd (load_font l p f s)) = original_image s"
  "watermarked_image (snd (load_font l p f s)) = watermarked_image s"
  "last_click_x (snd (load_font l p f s)) = last_click_x s"
  "last_click_y (snd (load_font l p f s)) = last_click_y s"
  "scale_x (snd (load_font l p f s)) = scale_x s"
  "scale_y (snd (load_font l p f s)) = scale_y s"
  "default_margin_x (snd (load_font l p f s)) = default_margin_x s"
  "default_margin_y (snd (load_font l p f s)) = default_margin_y s"
  "text_color (snd (load_font l p f s)) = text_color s"
  "written (snd (load_font l p f s)) = written s"
  by (simp_all add: load_font_def)

lemma load_font_fst:
  "fst (load_font l p f s) = (if truetype_ok l p f then TrueType p f else DefaultFont)"
  by (simp add: load_font_def)

lemma update_preview_frameD:
  assumes "update_preview l s = (r, s')"
  shows "original_image s' = original_image s"
    and "watermarked_image s' = watermarked_image s"
    and "last_click_x s' = last_click_x s"
    and "last_click_y s' = last_click_y s"
    and "click_marker s' = click_marker s"
    and "written s' = written s"
    and "take (length (heap s)) (heap s') = heap s"
proof -
  have "s' = snd (update_preview l s)" using assms by simp
  then show "original_image s' = original_image s"
    and "watermarked_image s' = watermarked_image s"
    and "last_click_x s' = last_click_x s"
    and "last_click_y s' = last_click_y s"
    and "click_marker s' = click_marker s"
    and "written s' = written s"
    and "take (length (heap s)) (heap s') = heap s"
    by (simp_all add: update_preview_frame)
qed

lemma text_position_cong:
  "last_click_x t = last_click_x s \<Longrightarrow> last_click_y t = last_click_y s \<Longrightarrow>
   scale_x t = scale_x s \<Longrightarrow> scale_y t = scale_y s \<Longrightarrow>
   default_margin_x t = default_margin_x s \<Longrightarrow> default_margin_y t = default_margin_y s \<Longrightarrow>
   text_position l t sz img = text_position l s sz img"
  by (simp add: text_position_def original_xy_def)

lemma logo_position_cong:
  "last_click_x t = last_click_x s \<Longrightarrow> last_click_y t = last_click_y s \<Longrightarrow>
   scale_x t = scale_x s \<Longrightarrow> scale_y t = scale_y s \<Longrightarrow>
   default_margin_x t = default_margin_x s \<Longrightarrow> default_margin_y t = default_margin_y s \<Longrightarrow>
   logo_position l t lg img = logo_position l s lg img"
  by (simp add: logo_position_def original_xy_def)

lemma draw_text_watermark_fields:
  "original_image (draw_text_watermark l a t p f s) = original_image s"
  "watermarked_image (draw_text_watermark l a t p f s) = Some (length (heap s))"
  "last_click_x (draw_text_watermark l a t p f s) = last_click_x s"
  "last_click_y (draw_text_watermark l a t p f s) = last_click_y s"
  "click_marker (draw_text_watermark l a t p f s) = None"
  "written (draw_text_watermark l a t p f s) = written s"
  by (simp_all add: draw_text_watermark_def Let_def load_font_frame)

lemma draw_text_watermark_heap:
  "heap (draw_text_watermark l a t p f s) =
     heap s @ [(heap s ! a)\<lparr>pixels :=
        draw_px l (heap s ! a)
          (text_position l s (text_size l (fst (load_font l p f s)) t) (heap s ! a))
          t (text_color s) (fst (load_font l p f s))\<rparr>]"
proof -
  let ?s1 = "s\<lparr>heap := heap s @ [heap s ! a]\<rparr>"
  let ?s2 = "snd (load_font l p f ?s1)"
  have pos: "text_position l ?s2 sz img = text_position l s sz img" for sz img
    by (rule text_position_cong) (simp_all add: load_font_frame)
  have fnt: "fst (load_font l p f ?s1) = fst (load_font l p f s)"
    by (simp add: load_font_fst)
  show ?thesis
    unfolding draw_text_watermark_def Let_def
    by (simp add: load_font_frame pos fnt)
qed

lemma finish_cases:
  obtains (raised) e s6 where "update_preview l s5 = (Raised e, s6)"
  | (returned) s6 where "update_preview l s5 = (Returned (), s6)"
proof (cases "update_preview l s5")
  case (Pair r s6)
  then show ?thesis by (cases r) (auto intro: raised returned)
qed

lemma take_prefix_grow:
  assumes "take (length (xs @ [x])) ys = xs @ [x]"
  shows "take (length xs) ys = xs"
proof -
  have "take (length xs) ys = take (length xs) (take (length (xs @ [x])) ys)"
    by (simp add: min_def)
  also have "\<dots> = take (length xs) (xs @ [x])"
    by (simp only: assms)
  also have "\<dots> = xs"
    by simp
  finally show ?thesis .
qed

lemma apply_text_watermark_unfold:
  assumes "original_image s = Some a"
    and "text_editor s = Some ed" and "alive ed" and "strip (watermark_text ed) \<noteq> []"
  shows "apply_text_watermark l s =
     (case update_preview l
        (draw_text_watermark l a (watermark_text ed) (get_font_path l (font_family ed))
           (case parse_int l (font_size ed) of Some n \<Rightarrow> n | None \<Rightarrow> 36) s) of
        (Raised e, s6) \<Rightarrow> (Raised e, s6)
      | (Returned u, s6) \<Rightarrow> (Returned (), s6\<lparr>text_editor := Some (ed\<lparr>alive := False\<rparr>)\<rparr>))"
  using assms by (simp add: apply_text_watermark_def Let_def)

lemma apply_text_watermark_skip:
  assumes "original_image s = None \<or> text_editor s = None \<or>
     (\<exists>ed. text_editor s = Some ed \<and> (\<not> alive ed \<or> strip (watermark_text ed) = []))"
  shows "snd (apply_text_watermark l s) = s"
  using assms by (auto simp: apply_text_watermark_def Let_def split: option.splits)

lemma apply_text_watermark_fields:
  assumes "original_image s = Some a"
    and "text_editor s = Some ed" and "alive ed" and "strip (watermark_text ed) \<noteq> []"
    and "s5 = draw_text_watermark l a (watermark_text ed) (get_font_path l (font_family ed))
           (case parse_int l (font_size ed) of Some n \<Rightarrow> n | None \<Rightarrow> 36) s"
  shows "original_image (snd (apply_text_watermark l s)) = original_image s \<and>
    watermarked_image (snd (apply_text_watermark l s)) = Some (length (heap s)) \<and>
    last_click_x (snd (apply_text_watermark l s)) = last_click_x s \<and>
    last_click_y (snd (apply_text_watermark l s)) = last_click_y s \<and>
    click_marker (snd (apply_text_watermark l s)) = None \<and>
    written (snd (apply_text_watermark l s)) = written s \<and>
    take (length (heap s5)) (heap (snd (apply_text_watermark l s))) = heap s5"
proof -
  have eq: "apply_text_watermark l s =
     (case update_preview l s5 of
        (Raised e, s6) \<Rightarrow> (Raised e, s6)
      | (Returned u, s6) \<Rightarrow> (Returned (), s6\<lparr>text_editor := Some (ed\<lparr>alive := False\<rparr>)\<rparr>))"
    unfolding assms(5) using assms(1-4) by (rule apply_text_watermark_unfold)
  have f5: "original_image s5 = original_image s"
    "watermarked_image s5 = Some (length (heap s))"
    "last_click_x s5 = last_click_x s" "last_click_y s5 = last_click_y s"
    "click_marker s5 = None" "written s5 = written s"
    unfolding assms(5) by (simp_all add: draw_text_watermark_fields)
  show ?thesis
  proof (cases l s5 rule: finish_cases)
    case (raised e s6)
    from update_preview_frameD [OF raised] show ?thesis
      by (simp add: eq raised f5)
  next
    case (returned s6)
    from update_preview_frameD [OF returned] show ?thesis
      by (simp add: eq returned f5)
  qed
qed

lemma paste_logo_watermark_fields:
  assumes "paste_logo_watermark l w img lg s1 = Returned s4"
  shows "original_image s4 = original_image s1 \<and>
    watermarked_image s4 = Some w \<and>
    last_click_x s4 = last_click_x s1 \<and> last_click_y s4 = last_click_y s1 \<and>
    click_marker s4 = None \<and> written s4 = written s1 \<and>
    (\<exists>px. paste_px l img lg (logo_position l s1 lg img) = Some px \<and>
          heap s4 = (heap s1)[w := img\<lparr>pixels := px\<rparr>])"
  using assms
  by (auto simp: paste_logo_watermark_def Let_def split: option.splits)

lemma apply_logo_watermark_outcomes:
  assumes "original_image s = Some a"
  shows "(\<exists>e. apply_logo_watermark l lg s = (Raised e, s\<lparr>heap := heap s @ [heap s ! a]\<rparr>)) \<or>
     (\<exists>r s4. resize_logo l (heap s ! a) lg = Returned r \<and>
        paste_logo_watermark l (length (heap s)) (heap s ! a) r
          (s\<lparr>heap := heap s @ [heap s ! a]\<rparr>) = Returned s4)"
proof (cases "resize_logo l (heap s ! a) lg")
  case (Raised e)
  with assms show ?thesis
    by (simp add: apply_logo_watermark_def Let_def)
next
  case r: (Returned r)
  show ?thesis
  proof (cases "paste_logo_watermark l (length (heap s)) (heap s ! a) r
         (s\<lparr>heap := heap s @ [heap s ! a]\<rparr>)")
    case (Raised e)
    with assms r show ?thesis
      by (simp add: apply_logo_watermark_def Let_def)
  next
    case (Returned s4)
    with r show ?thesis by simp
  qed
qed

lemma apply_logo_watermark_fields:
  assumes "original_image s = Some a"
    and "resize_logo l (heap s ! a) lg = Returned r"
    and "paste_logo_watermark l (length (heap s)) (heap s ! a) r
         (s\<lparr>heap := heap s @ [heap s ! a]\<rparr>) = Returned s4"
  shows "original_image (snd (apply_logo_watermark l lg s)) = original_image s \<and>
    watermarked_image (snd (apply_logo_watermark l lg s)) = Some (length (heap s)) \<and>
    last_click_x (snd (apply_logo_watermark l lg s)) = last_click_x s \<and>
    last_click_y (snd (apply_logo_watermark l lg s)) = last_click_y s \<and>
    click_marker (snd (apply_logo_watermark l lg s)) = None \<and>
    written (snd (apply_logo_watermark l lg s)) = written s \<and>
    take (length (heap s4)) (heap (snd (apply_logo_watermark l lg s))) = heap s4"
proof -
  have eq: "apply_logo_watermark l lg s =
         (case update_preview l s4 of
            (Raised e, s5) \<Rightarrow> (Raised e, s5)
          | (Returned u, s5) \<Rightarrow> (Returned (), s5))"
    using assms by (simp add: apply_logo_watermark_def Let_def)
  note f4 = paste_logo_watermark_fields [OF assms(3)]
  show ?thesis
  proof (cases l s4 rule: finish_cases)
    case (raised e s6)
    from update_preview_frameD [OF raised] f4 show ?thesis
      by (simp add: eq raised)
  next
    case (returned s6)
    from update_preview_frameD [OF returned] f4 show ?thesis
      by (simp add: eq returned)
  qed
qed

lemma apply_text_watermark_frame:
  "original_image (snd (apply_text_watermark l s)) = original_image s \<and>
   last_click_x (snd (apply_text_watermark l s)) = last_click_x s \<and>
   last_click_y (snd (apply_text_watermark l s)) = last_click_y s \<and>
   written (snd (apply_text_watermark l s)) = written s \<and>
   take (length (heap s)) (heap (snd (apply_text_watermark l s))) = heap s"
proof (cases "original_image s = None \<or> text_editor s = None \<or>
     (\<exists>ed. text_editor s = Some ed \<and> (\<not> alive ed \<or> strip (watermark_text ed) = []))")
  case True
  then show ?thesis by (simp add: apply_text_watermark_skip)
next
  case False
  then obtain a ed where h: "original_image s = Some a" "text_editor s = Some ed"
    "alive ed" "strip (watermark_text ed) \<noteq> []"
    by auto
  define s5 where "s5 = draw_text_watermark l a (watermark_text ed)
     (get_font_path l (font_family ed))
     (case parse_int l (font_size ed) of Some n \<Rightarrow> n | None \<Rightarrow> 36) s"
  note f = apply_text_watermark_fields [OF h s5_def]
  obtain x where hp: "heap s5 = heap s @ [x]"
    by (simp add: s5_def draw_text_watermark_heap)
  from f have "take (length (heap s @ [x])) (heap (snd (apply_text_watermark l s))) = heap s @ [x]"
    by (simp add: hp)
  then have "take (length (heap s)) (heap (snd (apply_text_watermark l s))) = heap s"
    by (rule take_prefix_grow)
  with f show ?thesis by simp
qed

lemma apply_logo_watermark_frame:
  "original_image (snd (apply_logo_watermark l lg s)) = original_image s \<and>
   last_click_x (snd (apply_logo_watermark l lg s)) = last_click_x s \<and>
   last_click_y (snd (apply_logo_watermark l lg s)) = last_click_y s \<and>
   written (snd (apply_logo_watermark l lg s)) = written s \<and>
   take (length (heap s)) (heap (snd (apply_logo_watermark l lg s))) = heap s"
proof (cases "original_image s")
  case None
  then show ?thesis by (simp add: apply_logo_watermark_def)
next
  case (Some a)
  from apply_logo_watermark_outcomes [OF Some, of l lg]
  consider (raised) e where
      "apply_logo_watermark l lg s = (Raised e, s\<lparr>heap := heap s @ [heap s ! a]\<rparr>)"
    | (pasted) r s4 where "resize_logo l (heap s ! a) lg = Returned r"
      "paste_logo_watermark l (length (heap s)) (heap s ! a) r
          (s\<lparr>heap := heap s @ [heap s ! a]\<rparr>) = Returned s4"
    by blast
  then show ?thesis
  proof cases
    case (raised e)
    then show ?thesis by simp
  next
    case (pasted r s4)
    note f = apply_logo_watermark_fields [OF Some pasted]
    from paste_logo_watermark_fields [OF pasted(2)]
    obtain x where hp: "heap s4 = heap s @ [x]"
      by auto
    from f have "take (length (heap s @ [x])) (heap (snd (apply_logo_watermark l lg s))) = heap s @ [x]"
      by (simp add: hp)
    then have "take (length (heap s)) (heap (snd (apply_logo_watermark l lg s))) = heap s"
      by (rule take_prefix_grow)
    with f show ?thesis by simp
  qed
qed

lemma nth_of_take_prefix:
  assumes "take (length (xs @ [x])) ys = xs @ [x]"
  shows "ys ! length xs = x"
proof -
  have "ys ! length xs = take (length (xs @ [x])) ys ! length xs"
    by simp
  also have "\<dots> = (xs @ [x]) ! length xs"
    by (simp only: assms)
  also have "\<dots> = x"
    by simp
  finally show ?thesis .
qed

lemma apply_text_watermark_drawn:
  assumes "original_image s = Some a"
    and "text_editor s = Some ed" and "alive ed" and "strip (watermark_text ed) \<noteq> []"
    and "fnt = fst (load_font l (get_font_path l (font_family ed))
           (case parse_int l (font_size ed) of Some n \<Rightarrow> n | None \<Rightarrow> 36) s)"
  shows "watermarked_image (snd (apply_text_watermark l s)) = Some (length (heap s)) \<and>
     heap (snd (apply_text_watermark l s)) ! length (heap s) =
       (heap s ! a)\<lparr>pixels := draw_px l (heap s ! a)
          (text_position l s (text_size l fnt (watermark_text ed)) (heap s ! a))
          (watermark_text ed) (text_color s) fnt\<rparr>"
proof -
  define s5 where "s5 = draw_text_watermark l a (watermark_text ed)
     (get_font_path l (font_family ed))
     (case parse_int l (font_size ed) of Some n \<Rightarrow> n | None \<Rightarrow> 36) s"
  note f = apply_text_watermark_fields [OF assms(1-4) s5_def]
  have hp: "heap s5 = heap s @ [(heap s ! a)\<lparr>pixels := draw_px l (heap s ! a)
          (text_position l s (text_size l fnt (watermark_text ed)) (heap s ! a))
          (watermark_text ed) (text_color s) fnt\<rparr>]"
    unfolding s5_def assms(5) by (rule draw_text_watermark_heap)
  from f have "take (length (heap s5)) (heap (snd (apply_text_watermark l s))) = heap s5"
    by simp
  then have "heap (snd (apply_text_watermark l s)) ! length (heap s) =
       (heap s ! a)\<lparr>pixels := draw_px l (heap s ! a)
          (text_position l s (text_size l fnt (watermark_text ed)) (heap s ! a))
          (watermark_text ed) (text_color s) fnt\<rparr>"
    unfolding hp by (rule nth_of_take_prefix)
  with f show ?thesis by simp
qed

lemma apply_logo_watermark_pasted:
  assumes "original_image s = Some a"
    and "resize_logo l (heap s ! a) lg = Returned r"
    and "paste_px l (heap s ! a) r (logo_position l s r (heap s ! a)) = Some px"
  shows "watermarked_image (snd (apply_logo_watermark l lg s)) = Some (length (heap s)) \<and>
     click_marker (snd (apply_logo_watermark l lg s)) = None \<and>
     heap (snd (apply_logo_watermark l lg s)) ! length (heap s) = (heap s ! a)\<lparr>pixels := px\<rparr>"
proof -
  let ?s1 = "s\<lparr>heap := heap s @ [heap s ! a]\<rparr>"
  have pos: "logo_position l ?s1 r (heap s ! a) = logo_position l s r (heap s ! a)"
    by (rule logo_position_cong) simp_all
  define s4 where "s4 = ?s1\<lparr>heap := (heap ?s1)[length (heap s) := (heap s ! a)\<lparr>pixels := px\<rparr>],
     click_marker := None, watermarked_image := Some (length (heap s))\<rparr>"
  have paste: "paste_logo_watermark l (length (heap s)) (heap s ! a) r ?s1 = Returned s4"
    unfolding paste_logo_watermark_def Let_def pos assms(3) s4_def by simp
  note f = apply_logo_watermark_fields [OF assms(1,2) paste]
  have hp: "heap s4 = heap s @ [(heap s ! a)\<lparr>pixels := px\<rparr>]"
    by (simp add: s4_def)
  from f have "take (length (heap s4)) (heap (snd (apply_logo_watermark l lg s))) = heap s4"
    by simp
  then have "heap (snd (apply_logo_watermark l lg s)) ! length (heap s) = (heap s ! a)\<lparr>pixels := px\<rparr>"
    unfolding hp by (rule nth_of_take_prefix)
  with f show ?thesis by simp
qed

lemma lib_exact_sel:
  "thumbnail lib_exact = fit"
  "resize_px lib_exact img sz = pixels img"
  "draw_px lib_exact img pos t col fnt = pixels img @ [fst pos, snd pos]"
  "paste_px lib_exact img lg pos = Some (pixels img @ [fst pos, snd pos, width lg, height lg])"
  "getbbox lib_exact fnt t = (0, 0, 20 * int (length t), 36)"
  "truetype_ok lib_exact path n = False"
  "findSystemFonts lib_exact = []"
  "winfo_width lib_exact = 600"
  "winfo_height lib_exact = 400"
  "fmul lib_exact q r = q * r"
  "fdiv lib_exact q r = q / r"
  by (simp_all add: lib_exact_def)

section \<open>Placement of a text watermark\<close>

text \<open>
  A click on the left column of the canvas is recorded and marked, and converts to the
  anchor (-250, 300); the text ''HI'', 40 by 36, would go to (0, 264) by the formula,
  but is drawn at the default position (930, 734).
\<close>

theorem text_edge_click_counterexample:
  "last_click_x (on_canvas_click (0, 150) (typed ''HI'' loaded)) = 0 \<and>
   last_click_y (on_canvas_click (0, 150) (typed ''HI'' loaded)) = 150 \<and>
   click_marker (on_canvas_click (0, 150) (typed ''HI'' loaded)) = Some (0, 150) \<and>
   py_int (fmul lib_exact (of_int (0 - 125))
     (scale_x (on_canvas_click (0, 150) (typed ''HI'' loaded)))) = - 250 \<and>
   py_int (fmul lib_exact (of_int 150)
     (scale_y (on_canvas_click (0, 150) (typed ''HI'' loaded)))) = 300 \<and>
   getbbox lib_exact DefaultFont ''HI'' = (0, 0, 40, 36) \<and>
   (max (- 250 - (40 - 0)) 0, max (300 - (36 - 0)) 0) = (0 :: int, 264 :: int) \<and>
   heap (snd (apply_text_watermark lib_exact
     (on_canvas_click (0, 150) (typed ''HI'' loaded)))) ! 2 =
     \<lparr>width = 1000, height = 800, pixels = [7, 7, 7, 930, 734]\<rparr>"
  by code_simp

text \<open>
  Claim C2, as the code has it. When a text watermark is applied after a click with
  both coordinates positive (the source's test for a click), the text is drawn with
  its top-left corner at \<open>(anchor.x - text_width, anchor.y - text_height)\<close>, each axis
  clamped at 0 from below. The anchor is the click converted to the original image:
  125 subtracted from x, y as it is, each multiplied by its scale factor and
  truncated. The width and height are the differences of the bounding box of the
  font that was loaded, the built-in one when loading failed. The drawn image is
  the copy at the next free address, which becomes the watermarked image.
\<close>

theorem text_click_placement:
  assumes "original_image s = Some a"
    and "text_editor s = Some ed" and "alive ed" and "strip (watermark_text ed) \<noteq> []"
    and "0 < last_click_x s" and "0 < last_click_y s"
  shows
    "let font_path = get_font_path l (font_family ed);
         fsize = (case parse_int l (font_size ed) of Some n \<Rightarrow> n | None \<Rightarrow> 36);
         fnt = (if truetype_ok l font_path fsize then TrueType font_path fsize else DefaultFont);
         anchor_x = py_int (fmul l (of_int (last_click_x s - 125)) (scale_x s));
         anchor_y = py_int (fmul l (of_int (last_click_y s)) (scale_y s));
         s' = snd (apply_text_watermark l s)
     in (case getbbox l fnt (watermark_text ed) of
           (x0, y0, x1, y1) \<Rightarrow>
             let text_width = x1 - x0;
                 text_height = y1 - y0;
                 position = (max (anchor_x - text_width) 0, max (anchor_y - text_height) 0)
             in original_xy l s = (anchor_x, anchor_y) \<and>
                text_position l s (text_width, text_height) (heap s ! a) = position \<and>
                watermarked_image s' = Some (length (heap s)) \<and>
                heap s' ! length (heap s) =
                  (heap s ! a)\<lparr>pixels :=
                     draw_px l (heap s ! a) position (watermark_text ed) (text_color s) fnt\<rparr>)"
proof -
  define font_path where "font_path = get_font_path l (font_family ed)"
  define fsize where "fsize = (case parse_int l (font_size ed) of Some n \<Rightarrow> n | None \<Rightarrow> 36)"
  define fnt where
    "fnt = (if truetype_ok l font_path fsize then TrueType font_path fsize else DefaultFont)"
  have fnt: "fnt = fst (load_font l (get_font_path l (font_family ed))
                 (case parse_int l (font_size ed) of Some n \<Rightarrow> n | None \<Rightarrow> 36) s)"
    by (simp add: fnt_def font_path_def fsize_def load_font_fst)
  obtain x0 y0 x1 y1 where bb: "getbbox l fnt (watermark_text ed) = (x0, y0, x1, y1)"
    by (cases "getbbox l fnt (watermark_text ed)") auto
  have sz: "text_size l fnt (watermark_text ed) = (x1 - x0, y1 - y0)"
    by (simp add: text_size_def bb)
  have anchor: "original_xy l s =
      (py_int (fmul l (of_int (last_click_x s - 125)) (scale_x s)),
       py_int (fmul l (of_int (last_click_y s)) (scale_y s)))"
    by (simp add: original_xy_def)
  have pos: "text_position l s (x1 - x0, y1 - y0) (heap s ! a) =
      (max (py_int (fmul l (of_int (last_click_x s - 125)) (scale_x s)) - (x1 - x0)) 0,
       max (py_int (fmul l (of_int (last_click_y s)) (scale_y s)) - (y1 - y0)) 0)"
    using assms(5,6) by (simp add: text_position_def anchor)
  from apply_text_watermark_drawn [OF assms(1-4) fnt]
  show ?thesis
    unfolding Let_def font_path_def [symmetric] fsize_def [symmetric] fnt_def [symmetric] bb sz
    by (simp add: pos anchor)
qed

theorem text_click_placement_witness:
  "0 < last_click_x (typed ''HI'' (on_canvas_click (260, 190) loaded)) \<and>
   0 < last_click_y (typed ''HI'' (on_canvas_click (260, 190) loaded)) \<and>
   original_xy lib_exact (typed ''HI'' (on_canvas_click (260, 190) loaded)) = (270, 380) \<and>
   watermarked_image
     (snd (apply_text_watermark lib_exact (typed ''HI'' (on_canvas_click (260, 190) loaded)))) =
     Some 2 \<and>
   heap (snd (apply_text_watermark lib_exact (typed ''HI'' (on_canvas_click (260, 190) loaded)))) ! 2 =
     \<lparr>width = 1000, height = 800, pixels = [7, 7, 7, 230, 344]\<rparr>"
proof -
  let ?s = "typed ''HI'' (on_canvas_click (260, 190) loaded)"
  let ?ed = "\<lparr>watermark_text = ''HI'', font_size = ''36'', font_family = ''Arial'', alive = True\<rparr>"
  have h1: "original_image ?s = Some 0" by code_simp
  have h2: "text_editor ?s = Some ?ed" by code_simp
  have h3: "alive ?ed" by simp
  have h4: "strip (watermark_text ?ed) \<noteq> []" by code_simp
  have h5: "0 < last_click_x ?s" by code_simp
  have h6: "0 < last_click_y ?s" by code_simp
  have e1: "heap ?s = [photo, photo\<lparr>width := 500, height := 400\<rparr>]" by code_simp
  have e2: "last_click_x ?s = 260" "last_click_y ?s = 190" "scale_x ?s = 2" "scale_y ?s = 2"
    by code_simp+
  have e3: "text_color ?s = ''#000000''" by code_simp
  have e5: "py_int 270 = 270" "py_int 380 = 380" by (simp_all add: py_int_def)
  from text_click_placement [OF h1 h2 h3 h4 h5 h6, of lib_exact] h5 h6
  show ?thesis
    unfolding Let_def e1 e2 e3
    by (simp add: lib_exact_sel photo_def numeral_2_eq_2 e5)
qed

lemma resize_logo_size:
  assumes "resize_logo l img lg = Returned r"
  shows "width r = py_int (fmul l (of_int (width img)) float_0_1) \<and>
     height r = py_int (fmul l (of_int (height lg))
        (fdiv l (of_int (width r)) (of_int (width lg)))) \<and>
     pixels r = resize_px l lg (width r, height r) \<and>
     width lg \<noteq> 0 \<and> 1 \<le> width r \<and> 1 \<le> height r"
  using assms
  by (auto simp: resize_logo_def Let_def split: if_splits)

text \<open>
  With an exact product, and for every width a double holds exactly, \<open>int(width * 0.1)\<close>
  is a tenth of the width, rounded down.
\<close>

lemma tenth_exact:
  assumes "0 \<le> w" and "w < 2 ^ 53"
  shows "py_int (of_int w * float_0_1) = w div 10"
proof -
  have eq: "(of_int w :: rat) * float_0_1 = of_int (w * 3602879701896397) / of_int 36028797018963968"
    by (simp add: float_0_1_def)
  have "\<lfloor>(of_int (w * 3602879701896397) :: rat) / of_int 36028797018963968\<rfloor> =
      (w * 3602879701896397) div 36028797018963968"
    by (rule floor_divide_of_int_eq)
  moreover have "(w * 3602879701896397) div 36028797018963968 = w div 10"
    using assms by simp
  moreover have "0 \<le> (of_int w :: rat) * float_0_1"
    using assms(1) by (simp add: float_0_1_def)
  ultimately show ?thesis
    unfolding py_int_def eq by simp
qed

section \<open>Placement of a logo watermark\<close>

text \<open>
  A click on the top row of the canvas is recorded and marked, and converts to the
  anchor (350, 0); the logo, resized to 100 by 80, would go to (300, -40) by the
  formula, but is pasted at the default position (870, 690).
\<close>

theorem logo_edge_click_counterexample:
  "last_click_x (on_canvas_click (300, 0) loaded) = 300 \<and>
   last_click_y (on_canvas_click (300, 0) loaded) = 0 \<and>
   click_marker (on_canvas_click (300, 0) loaded) = Some (300, 0) \<and>
   py_int (fmul lib_exact (of_int (300 - 125)) (scale_x (on_canvas_click (300, 0) loaded))) = 350 \<and>
   py_int (fmul lib_exact (of_int 0) (scale_y (on_canvas_click (300, 0) loaded))) = 0 \<and>
   resize_logo lib_exact photo logo_file = Returned \<lparr>width = 100, height = 80, pixels = [9]\<rparr> \<and>
   (350 - 100 div 2, 0 - 80 div 2) = (300 :: int, - 40 :: int) \<and>
   heap (snd (apply_logo_watermark lib_exact logo_file (on_canvas_click (300, 0) loaded))) ! 2 =
     \<lparr>width = 1000, height = 800, pixels = [7, 7, 7, 870, 690, 100, 80]\<rparr>"
  by code_simp

text \<open>
  Claim C5, as the code has it. When a logo watermark is applied after a click with
  both coordinates positive (the source's test for a click), the logo is first resized
  to \<open>int(width * 0.1)\<close> of the image's width, with the height scaled by the same
  factor, and then pasted with its top-left corner at
  \<open>(anchor.x - logo_width div 2, anchor.y - logo_height div 2)\<close>, computed from the
  resized logo and not clamped: the witness has a position with two negative
  coordinates. The anchor is the click converted to the original image: 125
  subtracted from x, y as it is, each multiplied by its scale factor and truncated.
\<close>

theorem logo_click_placement:
  assumes "original_image s = Some a"
    and "0 < last_click_x s" and "0 < last_click_y s"
    and "resize_logo l (heap s ! a) logo_image = Returned resized"
    and "paste_px l (heap s ! a) resized
           (py_int (fmul l (of_int (last_click_x s - 125)) (scale_x s)) - width resized div 2,
            py_int (fmul l (of_int (last_click_y s)) (scale_y s)) - height resized div 2) = Some px"
  shows
    "let anchor_x = py_int (fmul l (of_int (last_click_x s - 125)) (scale_x s));
         anchor_y = py_int (fmul l (of_int (last_click_y s)) (scale_y s))
     in width resized = py_int (fmul l (of_int (width (heap s ! a))) float_0_1) \<and>
        height resized = py_int (fmul l (of_int (height logo_image))
          (fdiv l (of_int (width resized)) (of_int (width logo_image)))) \<and>
        pixels resized = resize_px l logo_image (width resized, height resized) \<and>
        original_xy l s = (anchor_x, anchor_y) \<and>
        logo_position l s resized (heap s ! a) =
          (anchor_x - width resized div 2, anchor_y - height resized div 2) \<and>
        watermarked_image (snd (apply_logo_watermark l logo_image s)) = Some (length (heap s)) \<and>
        heap (snd (apply_logo_watermark l logo_image s)) ! length (heap s) =
          (heap s ! a)\<lparr>pixels := px\<rparr>"
proof -
  have anchor: "original_xy l s =
      (py_int (fmul l (of_int (last_click_x s - 125)) (scale_x s)),
       py_int (fmul l (of_int (last_click_y s)) (scale_y s)))"
    by (simp add: original_xy_def)
  have pos: "logo_position l s resized (heap s ! a) =
       (py_int (fmul l (of_int (last_click_x s - 125)) (scale_x s)) - width resized div 2,
        py_int (fmul l (of_int (last_click_y s)) (scale_y s)) - height resized div 2)"
    using assms(2,3) by (simp add: logo_position_def anchor)
  have paste: "paste_px l (heap s ! a) resized (logo_position l s resized (heap s ! a)) = Some px"
    by (simp only: pos assms(5))
  from apply_logo_watermark_pasted [OF assms(1) assms(4) paste] resize_logo_size [OF assms(4)]
    pos anchor
  show ?thesis
    unfolding Let_def by simp
qed

theorem logo_click_placement_witness:
  "0 < last_click_x (on_canvas_click (130, 10) loaded) \<and>
   0 < last_click_y (on_canvas_click (130, 10) loaded) \<and>
   original_xy lib_exact (on_canvas_click (130, 10) loaded) = (10, 20) \<and>
   resize_logo lib_exact photo logo_file = Returned \<lparr>width = 100, height = 80, pixels = [9]\<rparr> \<and>
   logo_position lib_exact (on_canvas_click (130, 10) loaded)
     \<lparr>width = 100, height = 80, pixels = [9]\<rparr> photo = (- 40, - 20) \<and>
   heap (snd (apply_logo_watermark lib_exact logo_file (on_canvas_click (130, 10) loaded))) ! 2 =
     \<lparr>width = 1000, height = 800, pixels = [7, 7, 7, - 40, - 20, 100, 80]\<rparr>"
proof -
  let ?s = "on_canvas_click (130, 10) loaded"
  let ?r = "\<lparr>width = 100, height = 80, pixels = [9]\<rparr>"
  have h1: "original_image ?s = Some 0" by code_simp
  have h2: "0 < last_click_x ?s" by code_simp
  have h3: "0 < last_click_y ?s" by code_simp
  have e1: "heap ?s = [photo, photo\<lparr>width := 500, height := 400\<rparr>]" by code_simp
  have e2: "last_click_x ?s = 130" "last_click_y ?s = 10" "scale_x ?s = 2" "scale_y ?s = 2"
    by code_simp+
  have e3: "resize_logo lib_exact photo logo_file = Returned ?r" by code_simp
  have e5: "py_int 10 = 10" "py_int 20 = 20" by (simp_all add: py_int_def)
  have h4: "resize_logo lib_exact (heap ?s ! 0) logo_file = Returned ?r"
    by (simp add: e1 e3)
  have h5: "paste_px lib_exact (heap ?s ! 0) ?r
           (py_int (fmul lib_exact (of_int (last_click_x ?s - 125)) (scale_x ?s)) - width ?r div 2,
            py_int (fmul lib_exact (of_int (last_click_y ?s)) (scale_y ?s)) - height ?r div 2) =
           Some [7, 7, 7, - 40, - 20, 100, 80]"
    unfolding e1 e2 by (simp add: lib_exact_sel photo_def e5)
  from logo_click_placement [OF h1 h2 h3 h4 h5] h2 h3 e3
  show ?thesis
    unfolding Let_def e1 e2
    by (simp add: lib_exact_sel photo_def logo_file_def numeral_2_eq_2 e5)
qed

section \<open>Clicks on the left column or the top row\<close>










section \<open>A click at the origin\<close>




section \<open>The click after a watermark\<close>

text \<open>
  After a logo or a text was applied at the click (250, 200) the session still holds
  that click, and a second logo goes to the same place, (200, 360), not to the default
  position (870, 690) that a session without a click uses.
\<close>

theorem click_kept_counterexample:
  "last_click_x (snd (apply_logo_watermark lib_exact logo_file
      (on_canvas_click (250, 200) loaded))) = 250 \<and>
   last_click_y (snd (apply_logo_watermark lib_exact logo_file
      (on_canvas_click (250, 200) loaded))) = 200 \<and>
   last_click_x (snd (apply_text_watermark lib_exact
      (typed ''HI'' (on_canvas_click (250, 200) loaded)))) = 250 \<and>
   last_click_y (snd (apply_text_watermark lib_exact
      (typed ''HI'' (on_canvas_click (250, 200) loaded)))) = 200 \<and>
   heap (run lib_exact [Click 250 200, ApplyLogo logo_file, ApplyLogo logo_file] loaded) ! 4 =
     \<lparr>width = 1000, height = 800, pixels = [7, 7, 7, 200, 360, 100, 80]\<rparr> \<and>
   heap (run lib_exact [ApplyLogo logo_file] loaded) ! 2 =
     \<lparr>width = 1000, height = 800, pixels = [7, 7, 7, 870, 690, 100, 80]\<rparr>"
  by code_simp

text \<open>
  Claim C1, as the code has it. No watermark application, successful or not, changes
  the recorded click: \<open>last_click_x\<close> and \<open>last_click_y\<close> are after the call what they
  were before it, so the next application tests and converts the same click.
\<close>

theorem apply_keeps_click:
  "last_click_x (snd (apply_text_watermark l s)) = last_click_x s \<and>
   last_click_y (snd (apply_text_watermark l s)) = last_click_y s \<and>
   last_click_x (snd (apply_logo_watermark l logo_image s)) = last_click_x s \<and>
   last_click_y (snd (apply_logo_watermark l logo_image s)) = last_click_y s"
  using apply_text_watermark_frame [of l s] apply_logo_watermark_frame [of l logo_image s]
  by simp

section \<open>Addresses stay inside the store\<close>

lemma wf_init: "wf init"
  by (simp add: wf_def init_def)

lemma take_length_le:
  assumes "take n ys = xs" and "length xs = n"
  shows "n \<le> length ys"
proof -
  have "length (take n ys) = n" using assms by simp
  then show ?thesis by simp
qed

lemma wf_upload_image:
  assumes "wf s"
  shows "wf (upload_image l p opened s)"
proof (cases "p = []")
  case True
  with assms show ?thesis by (auto simp: upload_image_def wf_def split: option.splits)
next
  case False
  show ?thesis
  proof (cases opened)
    case None
    with False assms show ?thesis by (auto simp: upload_image_def wf_def split: option.splits)
  next
    case (Some img)
    let ?s1 = "s\<lparr>heap := heap s @ [img], original_image := Some (length (heap s))\<rparr>"
    obtain r s2 where g: "get_resized_image_for_preview l (length (heap s)) ?s1 = (r, s2)"
      by (cases "get_resized_image_for_preview l (length (heap s)) ?s1") auto
    then have "s2 = snd (get_resized_image_for_preview l (length (heap s)) ?s1)"
      by simp
    then have f: "watermarked_image s2 = watermarked_image s"
      "original_image s2 = Some (length (heap s))"
      "length (heap s2) = Suc (Suc (length (heap s)))"
      by (simp_all add: preview_frame)
    have "wf s2"
      using assms f by (auto simp: wf_def split: option.splits)
    with False Some g show ?thesis
      by (cases r) (auto simp: upload_image_def Let_def enable_buttons_def wf_def
          split: option.splits)
  qed
qed

lemma wf_apply_text_watermark:
  assumes "wf s"
  shows "wf (snd (apply_text_watermark l s))"
proof (cases "original_image s = None \<or> text_editor s = None \<or>
     (\<exists>ed. text_editor s = Some ed \<and> (\<not> alive ed \<or> strip (watermark_text ed) = []))")
  case True
  with assms show ?thesis by (simp add: apply_text_watermark_skip)
next
  case False
  then obtain a ed where h: "original_image s = Some a" "text_editor s = Some ed"
    "alive ed" "strip (watermark_text ed) \<noteq> []"
    by auto
  define s5 where "s5 = draw_text_watermark l a (watermark_text ed)
     (get_font_path l (font_family ed))
     (case parse_int l (font_size ed) of Some n \<Rightarrow> n | None \<Rightarrow> 36) s"
  note f = apply_text_watermark_fields [OF h s5_def]
  have len5: "length (heap s5) = Suc (length (heap s))"
    by (simp add: s5_def draw_text_watermark_heap)
  from f have "take (length (heap s5)) (heap (snd (apply_text_watermark l s))) = heap s5"
    by simp
  then have "length (heap s5) \<le> length (heap (snd (apply_text_watermark l s)))"
    by (rule take_length_le) simp
  with len5 f assms show ?thesis
    by (auto simp: wf_def split: option.splits)
qed

lemma wf_apply_logo_watermark:
  assumes "wf s"
  shows "wf (snd (apply_logo_watermark l lg s))"
proof (cases "original_image s")
  case None
  with assms show ?thesis by (simp add: apply_logo_watermark_def)
next
  case (Some a)
  from apply_logo_watermark_outcomes [OF Some, of l lg]
  consider (raised) e where
      "apply_logo_watermark l lg s = (Raised e, s\<lparr>heap := heap s @ [heap s ! a]\<rparr>)"
    | (pasted) r s4 where "resize_logo l (heap s ! a) lg = Returned r"
      "paste_logo_watermark l (length (heap s)) (heap s ! a) r
          (s\<lparr>heap := heap s @ [heap s ! a]\<rparr>) = Returned s4"
    by blast
  then show ?thesis
  proof cases
    case (raised e)
    with assms show ?thesis by (auto simp: wf_def split: option.splits)
  next
    case (pasted r s4)
    note f = apply_logo_watermark_fields [OF Some pasted]
    from paste_logo_watermark_fields [OF pasted(2)]
    have len4: "length (heap s4) = Suc (length (heap s))"
      by auto
    from f have "take (length (heap s4)) (heap (snd (apply_logo_watermark l lg s))) = heap s4"
      by simp
    then have "length (heap s4) \<le> length (heap (snd (apply_logo_watermark l lg s)))"
      by (rule take_length_le) simp
    with len4 f assms show ?thesis
      by (auto simp: wf_def split: option.splits)
  qed
qed

lemma wf_step:
  assumes "wf s"
  shows "wf (step l c s)"
proof (cases c)
  case (Upload p opened)
  with assms show ?thesis by (simp add: wf_upload_image)
next
  case (Click x y)
  with assms show ?thesis
    by (auto simp: on_canvas_click_def wf_def split: option.splits)
next
  case OpenEditor
  with assms show ?thesis
    by (auto simp: open_text_editor_def wf_def split: option.splits)
next
  case (Edit t sz fam)
  with assms show ?thesis
    by (auto simp: edit_text_def wf_def split: option.splits)
next
  case ApplyText
  with assms show ?thesis by (simp add: wf_apply_text_watermark)
next
  case (AddLogo p opened)
  with assms wf_apply_logo_watermark [OF assms] show ?thesis
    by (auto simp: add_logo_watermark_def split: option.splits)
next
  case (ApplyLogo lg)
  with assms show ?thesis by (simp add: wf_apply_logo_watermark)
next
  case (Save p ok)
  with assms show ?thesis
    by (auto simp: save_image_def wf_def split: option.splits)
qed

lemma wf_run: "wf s \<Longrightarrow> wf (run l cs s)"
  by (induction cs arbitrary: s) (simp_all add: wf_step)

lemma wf_reachable: "wf (run l cs init)"
  by (rule wf_run) (rule wf_init)

section \<open>The loaded image is never drawn on\<close>

lemma nth_of_take:
  assumes "take n ys = xs" and "a < length xs"
  shows "ys ! a = xs ! a"
proof -
  have "a < n" using assms by auto
  then have "take n ys ! a = ys ! a" by (rule nth_take)
  then show ?thesis by (simp add: assms(1))
qed

lemma preview_depends_on_image:
  "heap t ! a = heap s ! a \<Longrightarrow>
   fst (get_resized_image_for_preview l a t) = fst (get_resized_image_for_preview l a s)"
  by (simp add: preview_result)

text \<open>
  Claim C6. Neither watermark operation changes the loaded image: the session still
  points to the same object, the object holds the same image, and the preview derived
  from it is the same as before the call. This holds in every session whose addresses
  point into its store, whatever the outcome of the call.
\<close>

theorem source_image_not_mutated:
  assumes "wf s" and "original_image s = Some a"
  shows
    "original_image (snd (apply_text_watermark l s)) = Some a \<and>
     heap (snd (apply_text_watermark l s)) ! a = heap s ! a \<and>
     fst (get_resized_image_for_preview l a (snd (apply_text_watermark l s))) =
       fst (get_resized_image_for_preview l a s) \<and>
     original_image (snd (apply_logo_watermark l logo_image s)) = Some a \<and>
     heap (snd (apply_logo_watermark l logo_image s)) ! a = heap s ! a \<and>
     fst (get_resized_image_for_preview l a (snd (apply_logo_watermark l logo_image s))) =
       fst (get_resized_image_for_preview l a s)"
proof -
  have a: "a < length (heap s)"
    using assms by (simp add: wf_def)
  have "take (length (heap s)) (heap (snd (apply_text_watermark l s))) = heap s"
    using apply_text_watermark_frame [of l s] by simp
  then have t: "heap (snd (apply_text_watermark l s)) ! a = heap s ! a"
    using a by (rule nth_of_take)
  have "take (length (heap s)) (heap (snd (apply_logo_watermark l logo_image s))) = heap s"
    using apply_logo_watermark_frame [of l logo_image s] by simp
  then have g: "heap (snd (apply_logo_watermark l logo_image s)) ! a = heap s ! a"
    using a by (rule nth_of_take)
  from t g preview_depends_on_image [OF t, of l] preview_depends_on_image [OF g, of l]
    apply_text_watermark_frame [of l s] apply_logo_watermark_frame [of l logo_image s] assms(2)
  show ?thesis by simp
qed

theorem source_image_not_mutated_witness:
  "wf (typed ''HI'' (on_canvas_click (250, 200) loaded)) \<and>
   original_image (typed ''HI'' (on_canvas_click (250, 200) loaded)) = Some 0 \<and>
   heap (typed ''HI'' (on_canvas_click (250, 200) loaded)) ! 0 = photo \<and>
   heap (snd (apply_text_watermark lib_exact (typed ''HI'' (on_canvas_click (250, 200) loaded)))) ! 0 =
     photo \<and>
   heap (snd (apply_logo_watermark lib_exact logo_file
     (typed ''HI'' (on_canvas_click (250, 200) loaded)))) ! 0 = photo \<and>
   fst (get_resized_image_for_preview lib_exact 0
     (snd (apply_text_watermark lib_exact (typed ''HI'' (on_canvas_click (250, 200) loaded))))) =
     Returned (photo\<lparr>width := 500, height := 400\<rparr>)"
proof -
  let ?s = "typed ''HI'' (on_canvas_click (250, 200) loaded)"
  have h1: "wf ?s" by code_simp
  have h2: "original_image ?s = Some 0" by code_simp
  have e1: "heap ?s ! 0 = photo" by code_simp
  have e2: "fst (get_resized_image_for_preview lib_exact 0 ?s) =
    Returned (photo\<lparr>width := 500, height := 400\<rparr>)" by code_simp
  from source_image_not_mutated [OF h1 h2, of lib_exact logo_file] h1 h2 e1 e2
  show ?thesis by simp
qed

section \<open>Saving without a watermark\<close>








section \<open>Watermarking without an image\<close>

text \<open>
  In the initial session both operations return normally and leave the session,
  with its empty list of notices, as it is: no error is raised or shown.
\<close>

theorem no_image_counterexample:
  "apply_text_watermark lib_exact init = (Returned (), init) \<and>
   apply_logo_watermark lib_exact logo_file init = (Returned (), init) \<and>
   notices (snd (apply_text_watermark lib_exact init)) = [] \<and>
   notices (snd (apply_logo_watermark lib_exact logo_file init)) = []"
  by (simp add: apply_text_watermark_def apply_logo_watermark_def init_def)

text \<open>
  Claim C8, as the code has it. Without a loaded image each watermark operation
  returns normally, without an exception and without a notice, and leaves the whole
  session unchanged.
\<close>

theorem no_image_is_silent_no_op:
  assumes "original_image s = None"
  shows
    "apply_text_watermark l s = (Returned (), s) \<and>
     apply_logo_watermark l logo_image s = (Returned (), s) \<and>
     add_logo_watermark l logo_path opened s = (Returned (), s)"
  using assms
  by (simp add: apply_text_watermark_def apply_logo_watermark_def add_logo_watermark_def)

theorem no_image_is_silent_no_op_witness:
  "original_image (on_canvas_click (250, 200) init) = None \<and>
   apply_text_watermark lib_exact (on_canvas_click (250, 200) init) =
     (Returned (), on_canvas_click (250, 200) init) \<and>
   apply_logo_watermark lib_exact logo_file (on_canvas_click (250, 200) init) =
     (Returned (), on_canvas_click (250, 200) init) \<and>
   add_logo_watermark lib_exact ''logo.png'' (Some logo_file) (on_canvas_click (250, 200) init) =
     (Returned (), on_canvas_click (250, 200) init)"
proof -
  have h: "original_image (on_canvas_click (250, 200) init) = None"
    by (simp add: on_canvas_click_def init_def)
  from no_image_is_silent_no_op [OF h] h show ?thesis by simp
qed

section \<open>Blank text\<close>

lemma strip_blank: "strip t = [] \<longleftrightarrow> (\<forall>c\<in>set t. is_space c)"
proof
  assume "strip t = []"
  then have "dropWhile is_space (rev (dropWhile is_space t)) = []"
    by (simp add: strip_def)
  then have all: "\<forall>c\<in>set (dropWhile is_space t). is_space c"
    by (simp add: dropWhile_eq_Nil_conv)
  have "dropWhile is_space t = []"
  proof (cases "dropWhile is_space t")
    case Nil
    then show ?thesis .
  next
    case (Cons c cs)
    then have "\<not> is_space c"
      by (metis hd_dropWhile list.sel(1) list.distinct(1))
    with all Cons show ?thesis by simp
  qed
  then show "\<forall>c\<in>set t. is_space c"
    by (simp add: dropWhile_eq_Nil_conv)
next
  assume "\<forall>c\<in>set t. is_space c"
  then show "strip t = []"
    by (auto simp: strip_def dest: set_dropWhileD)
qed

text \<open>
  With blank text in a session that has no result yet there is no result afterwards
  either; in a session that holds a logo watermark the result stays the image with
  the logo, whose pixel data is not that of the loaded photo.
\<close>

theorem blank_text_counterexample:
  "watermarked_image (snd (apply_text_watermark lib_exact (typed ''  '' loaded))) = None \<and>
   watermarked_image (snd (apply_text_watermark lib_exact (typed [] loaded))) = None \<and>
   watermarked_image (snd (apply_text_watermark lib_exact
      (typed [] (snd (apply_logo_watermark lib_exact logo_file loaded))))) = Some 2 \<and>
   heap (snd (apply_text_watermark lib_exact
      (typed [] (snd (apply_logo_watermark lib_exact logo_file loaded))))) ! 2 =
     \<lparr>width = 1000, height = 800, pixels = [7, 7, 7, 870, 690, 100, 80]\<rparr> \<and>
   heap (snd (apply_text_watermark lib_exact
      (typed [] (snd (apply_logo_watermark lib_exact logo_file loaded))))) ! 0 =
     \<lparr>width = 1000, height = 800, pixels = [7, 7, 7]\<rparr>"
  by code_simp

text \<open>
  Claim C9, as the code has it. With empty or white-space-only text in the dialog
  \<open>apply_text_watermark\<close> returns at once: nothing is copied or drawn, and the whole
  session, with the result it holds or does not hold, stays as it is.
\<close>

theorem blank_text_is_no_op:
  assumes "text_editor s = Some ed" and "alive ed"
    and "\<forall>c\<in>set (watermark_text ed). is_space c"
  shows "apply_text_watermark l s = (Returned (), s)"
proof -
  have "strip (watermark_text ed) = []"
    using assms(3) by (simp add: strip_blank)
  with assms(1,2) show ?thesis
    by (cases "original_image s") (simp_all add: apply_text_watermark_def Let_def)
qed

theorem blank_text_is_no_op_witness:
  "is_space CHR '' '' \<and> strip ''  '' = [] \<and>
   original_image (typed ''  '' loaded) = Some 0 \<and>
   apply_text_watermark lib_exact (typed ''  '' loaded) = (Returned (), typed ''  '' loaded) \<and>
   watermarked_image (typed ''  '' loaded) = None"
proof -
  let ?ed = "\<lparr>watermark_text = ''  '', font_size = ''36'', font_family = ''Arial'', alive = True\<rparr>"
  have h1: "text_editor (typed ''  '' loaded) = Some ?ed" by code_simp
  have h2: "alive ?ed" by simp
  have b: "\<forall>c\<in>set ''  ''. is_space c" by (simp add: is_space_def)
  then have h3: "\<forall>c\<in>set (watermark_text ?ed). is_space c" by simp
  have e1: "original_image (typed ''  '' loaded) = Some 0" by code_simp
  have e2: "watermarked_image (typed ''  '' loaded) = None" by code_simp
  have e3: "is_space CHR '' ''" by (simp add: is_space_def)
  have e4: "strip ''  '' = []" using b by (simp only: strip_blank)
  from blank_text_is_no_op [OF h1 h2 h3, of lib_exact] e1 e2 e3 e4
  show ?thesis by simp
qed

section \<open>The click at the centre of the preview\<close>

text \<open>
  The conversion takes the centre of the canvas to the centre of the image when the
  preview is 350 wide and 400 high, the one size for which the constant 125 is the
  padding left of the preview and there is none above it (exact arithmetic).
\<close>

lemma py_int_half:
  assumes "0 \<le> n"
  shows "py_int (of_int n / 2) = n div 2"
proof -
  have "\<lfloor>(of_int n :: rat) / of_int 2\<rfloor> = n div 2"
    by (rule floor_divide_of_int_eq)
  with assms show ?thesis by (simp add: py_int_def)
qed

lemma center_click_exact:
  assumes "last_click_x s = 300" and "last_click_y s = 200"
    and "scale_x s = of_int w / 350" and "scale_y s = of_int h / 400"
    and "0 \<le> w" and "0 \<le> h"
    and "fmul l = (\<lambda>a b. a * b)"
  shows "original_xy l s = (w div 2, h div 2)"
proof -
  have x: "(175::rat) * (of_int w / 350) = of_int w / 2" by simp
  have y: "(200::rat) * (of_int h / 400) = of_int h / 2" by simp
  show ?thesis
    using assms(5,6)
    by (simp add: original_xy_def assms(1-4,7) x y py_int_half)
qed

text \<open>
  Claim C3. The photo of 1000 by 800 is shown as a preview of 500 by 400, whose centre
  \<open>upload_image\<close> puts on the canvas point (300, 200). A click there is converted to
  (350, 400), and a click at the preview's own centre coordinates (250, 200) to
  (250, 400); the centre of the photo is (500, 400).
\<close>

theorem center_click_off_center:
  "preview_image loaded = Some \<lparr>width = 500, height = 400, pixels = [7, 7, 7]\<rparr> \<and>
   scale_x loaded = 2 \<and> scale_y loaded = 2 \<and>
   original_xy lib_exact (on_canvas_click (300, 200) loaded) = (350, 400) \<and>
   original_xy lib_exact (on_canvas_click (250, 200) loaded) = (250, 400) \<and>
   (width photo div 2, height photo div 2) = (500, 400)"
  by code_simp

end
